theory Spec2Isabelle
  imports Main "HOL-Library.Word"
begin

section \<open>Machine types\<close>

text \<open>
  \<^verbatim>\<open>size_t\<close> and \<^verbatim>\<open>uint64_t\<close> are 64-bit unsigned integers (an LP64 target),
  \<^verbatim>\<open>std::uint32_t\<close> is a 32-bit one. Converting a \<^verbatim>\<open>size_t\<close> to a
  \<^verbatim>\<open>std::uint32_t\<close> keeps the low 32 bits, which is \<open>ucast\<close> from \<open>64 word\<close> to
  \<open>32 word\<close>; converting the other way keeps the value.
\<close>

type_synonym size_t = "64 word"
type_synonym uint32 = "32 word"
type_synonym uint64 = "64 word"

section \<open>The class AngleSet of angle\_set.h\<close>

text \<open>
  The data members of \<^verbatim>\<open>class AngleSet\<close> (lines 126 to 143 of angle\_set.h). A member
  \<^verbatim>\<open>name_\<close> of the class is the field \<open>name_'\<close>, since a name may not end in an
  underscore here. The SPDS reference, the shared FLUDS pointer and the boundary objects are
  handles whose contents no operation of the header reads: they are type parameters. The
  boundary map \<^verbatim>\<open>std::map<uint64_t, std::shared_ptr<SweepBoundary>>\<close> is a partial map.
\<close>

record ('spds, 'fluds, 'bnd) AngleSet =
  id_' :: size_t
  num_groups_' :: size_t
  spds_' :: 'spds
  fluds_' :: 'fluds
  angles_' :: "uint32 list"
  boundaries_' :: "uint64 \<rightharpoonup> 'bnd"
  executed_' :: bool

text \<open>
  What a member function can throw. \<^verbatim>\<open>OpenSnLogicalError\<close> is a macro of
  framework/logging/log.h, which is not among the sources.
\<close>

datatype error = LogicalError string

text \<open>
  Modelled from the spec: the macro \<^verbatim>\<open>OpenSnLogicalError(message)\<close> is not in the sources.
  The spec calls what it does a fatal logic fault that is not recoverable: the call never
  returns a value to its caller, so the result is the error.
\<close>

definition OpenSnLogicalError :: "string \<Rightarrow> error + 'a" where
  "OpenSnLogicalError message = Inl (LogicalError message)"

text \<open>
  The constructor (lines 32 to 45). Its body is empty and no initialiser checks anything, so
  the only result is the constructed object. \<^verbatim>\<open>angles_\<close> is a
  \<^verbatim>\<open>std::vector<std::uint32_t>\<close> built from the iterator range of a
  \<^verbatim>\<open>std::vector<size_t>\<close>: every element is converted to 32 bits, in order.
  \<^verbatim>\<open>executed_\<close> has the default member initialiser \<^verbatim>\<open>false\<close> (line 143).
\<close>

definition AngleSet_ctor ::
  "size_t \<Rightarrow> size_t \<Rightarrow> 'spds \<Rightarrow> 'fluds \<Rightarrow> size_t list \<Rightarrow> (uint64 \<rightharpoonup> 'bnd)
    \<Rightarrow> error + ('spds, 'fluds, 'bnd) AngleSet" where
  "AngleSet_ctor ident num_groups spds fluds angle_indices boundaries =
     Inr \<lparr> id_' = ident,
           num_groups_' = num_groups,
           spds_' = spds,
           fluds_' = fluds,
           angles_' = map ucast angle_indices,
           boundaries_' = boundaries,
           executed_' = False \<rparr>"

text \<open>The accessors of lines 47 to 60.\<close>

definition GetID :: "('spds, 'fluds, 'bnd) AngleSet \<Rightarrow> size_t" where
  "GetID a = id_' a"

definition GetSPDS :: "('spds, 'fluds, 'bnd) AngleSet \<Rightarrow> 'spds" where
  "GetSPDS a = spds_' a"

definition GetFLUDS :: "('spds, 'fluds, 'bnd) AngleSet \<Rightarrow> 'fluds" where
  "GetFLUDS a = fluds_' a"

definition GetAngleIndices :: "('spds, 'fluds, 'bnd) AngleSet \<Rightarrow> uint32 list" where
  "GetAngleIndices a = angles_' a"

definition GetBoundaries :: "('spds, 'fluds, 'bnd) AngleSet \<Rightarrow> (uint64 \<rightharpoonup> 'bnd)" where
  "GetBoundaries a = boundaries_' a"

definition GetNumGroups :: "('spds, 'fluds, 'bnd) AngleSet \<Rightarrow> size_t" where
  "GetNumGroups a = num_groups_' a"

text \<open>
  \<^verbatim>\<open>angles_.size()\<close>: the number of stored elements. A vector never holds
  \<open>2 ^ 64\<close> elements, so the count is a natural number that fits its \<^verbatim>\<open>size_t\<close>.
\<close>

definition GetNumAngles :: "('spds, 'fluds, 'bnd) AngleSet \<Rightarrow> nat" where
  "GetNumAngles a = length (angles_' a)"

text \<open>
  Modelled from the spec: \<^verbatim>\<open>HasAngleIndex\<close> is declared at line 63 and defined in a file
  that is not among the sources. The spec: it "returns whether a given direction index belongs
  to this angle set's index list; pure, no side effects". The parameter type
  \<^verbatim>\<open>std::uint32_t\<close> and the \<^verbatim>\<open>const\<close> qualifier are those of the declaration.
\<close>

definition HasAngleIndex :: "('spds, 'fluds, 'bnd) AngleSet \<Rightarrow> uint32 \<Rightarrow> bool" where
  "HasAngleIndex a angle_index = (angle_index \<in> set (angles_' a))"

text \<open>
  \<^verbatim>\<open>virtual void UpdateSweepDependencies(std::set<AngleSet*>& dependent_angle_sets) {}\<close>
  (line 69): the default has an empty body. It is not \<^verbatim>\<open>const\<close> and takes the set by
  reference, so the model returns the object and the set after the call. The pointers in the
  set are values of a type parameter.
\<close>

definition UpdateSweepDependencies ::
  "('spds, 'fluds, 'bnd) AngleSet \<Rightarrow> 'ptr set \<Rightarrow> ('spds, 'fluds, 'bnd) AngleSet \<times> 'ptr set" where
  "UpdateSweepDependencies a dependent_angle_sets = (a, dependent_angle_sets)"

text \<open>
  The default \<^verbatim>\<open>GetCommunicator\<close> (lines 71 to 74): its whole body is
  \<^verbatim>\<open>OpenSnLogicalError("Method not implemented")\<close>. The communicator it would return
  is a value of a type parameter.
\<close>

definition GetCommunicator :: "('spds, 'fluds, 'bnd) AngleSet \<Rightarrow> error + 'comm" where
  "GetCommunicator a = OpenSnLogicalError ''Method not implemented''"

section \<open>The advance protocol\<close>

text \<open>
  Modelled from the spec: the enumeration \<^verbatim>\<open>AngleSetStatus\<close> is declared in sweep.h,
  which is not among the sources. The spec lists its values: ReceivingData (still waiting on
  required receives), ReadyToExecute (all upstream data present, awaiting caller permission),
  Executed (kernel has run, sends may still be in flight), Finished (kernel ran and all sends
  confirmed complete).
\<close>

datatype AngleSetStatus = ReceivingData | ReadyToExecute | Executed | Finished

text \<open>
  Modelled from the spec: which permission grants execution. The spec passes a status value as
  the permission; the note at lines 94 and 95 of angle\_set.h says the sweep is only executed
  when the permission is the execute value. Every other value denies.
\<close>

definition permits :: "AngleSetStatus \<Rightarrow> bool" where
  "permits permission = (permission = Executed)"

text \<open>
  Modelled from the spec: the asynchronous communicator is not among the sources. An advance
  call polls it without blocking; \<open>comm_poll\<close> is what the poll reports at one call: whether
  every receive the angle set currently requires has completed, and whether every send the
  angle set enqueued has been confirmed complete.
\<close>

record comm_poll =
  receives_complete :: bool
  sends_complete :: bool

text \<open>
  Modelled from the spec: the kernel (\<^verbatim>\<open>SweepChunk\<close>) is opaque to the angle set, and the
  spec observes it with an invocation counter. \<open>kernel_calls\<close> is that counter,
  \<open>sends_enqueued\<close> counts the enqueue steps towards downstream dependents and \<open>polls\<close>
  counts the polls of the communicator. \<open>finished\<close> is the bookkeeping that records that the
  status Finished has been reached. \<open>aset\<close> is the angle set itself.
\<close>

record ('spds, 'fluds, 'bnd) sweep_state =
  aset :: "('spds, 'fluds, 'bnd) AngleSet"
  kernel_calls :: nat
  sends_enqueued :: nat
  polls :: nat
  finished :: bool

text \<open>
  Modelled from the spec: \<^verbatim>\<open>AngleSetAdvance\<close> is pure virtual at line 97 and no
  implementation is among the sources. The branches are those of the spec's section 4.1, in
  its order:
  \<^item> already Finished: return Finished, an idempotent no-op. A status recorded as Finished is
    returned before anything is polled. Otherwise the call polls the communicator, once; when
    the kernel has run and the poll confirms all sends complete, which is what Finished
    means, the call returns Finished and records it;
  \<^item> the poll says a required receive is incomplete: ReceivingData;
  \<^item> complete but the permission denies execution: ReadyToExecute, the kernel is not invoked;
  \<^item> complete and permitted, after the kernel has run: it must not be invoked again, and the
    call returns Executed (sends may still be in flight);
  \<^item> complete and permitted: invoke the kernel, set \<open>executed\<close>, enqueue the outgoing flux,
    return Executed.
  No branch waits: a call reads the report of its one poll and returns.
\<close>

definition AngleSetAdvance ::
  "('spds, 'fluds, 'bnd) sweep_state \<Rightarrow> comm_poll \<Rightarrow> AngleSetStatus
    \<Rightarrow> AngleSetStatus \<times> ('spds, 'fluds, 'bnd) sweep_state" where
  "AngleSetAdvance w poll permission =
     (if finished w then (Finished, w)
      else if executed_' (aset w) \<and> sends_complete poll then
        (Finished, w \<lparr> polls := polls w + 1, finished := True \<rparr>)
      else if \<not> receives_complete poll then
        (ReceivingData, w \<lparr> polls := polls w + 1 \<rparr>)
      else if \<not> permits permission then
        (ReadyToExecute, w \<lparr> polls := polls w + 1 \<rparr>)
      else if executed_' (aset w) then
        (Executed, w \<lparr> polls := polls w + 1 \<rparr>)
      else
        (Executed,
         w \<lparr> polls := polls w + 1,
             kernel_calls := kernel_calls w + 1,
             aset := (aset w) \<lparr> executed_' := True \<rparr>,
             sends_enqueued := sends_enqueued w + 1 \<rparr>))"

text \<open>
  Modelled from the spec: the scheduler loop calls advance repeatedly within one outer
  iteration, with no reset in between. Each call comes with what the poll reports then and
  with a permission; the result is the list of returned statuses and the final state.
\<close>

fun AdvanceCalls ::
  "('spds, 'fluds, 'bnd) sweep_state \<Rightarrow> (comm_poll \<times> AngleSetStatus) list
    \<Rightarrow> AngleSetStatus list \<times> ('spds, 'fluds, 'bnd) sweep_state" where
  "AdvanceCalls w [] = ([], w)"
| "AdvanceCalls w ((poll, permission) # calls) =
     (case AngleSetAdvance w poll permission of
        (status, w') \<Rightarrow>
          (case AdvanceCalls w' calls of
             (statuses, w'') \<Rightarrow> (status # statuses, w'')))"

text \<open>
  Modelled from the spec: the state of a sweep right after construction, before any advance
  call: the kernel has not been invoked, nothing has been enqueued or polled, and the status
  Finished has not been reached.
\<close>

definition fresh_sweep :: "('spds, 'fluds, 'bnd) AngleSet \<Rightarrow> ('spds, 'fluds, 'bnd) sweep_state" where
  "fresh_sweep a =
     \<lparr> aset = a, kernel_calls = 0, sends_enqueued = 0, polls = 0, finished = False \<rparr>"

text \<open>
  The scenario of the spec's testable properties: the angle set with id 3, 2 groups and the
  direction indices 5, 7 and 9, as the constructor leaves it. It is the concrete input of the
  examples below.
\<close>

abbreviation scenario_set :: "(unit, unit, unit) AngleSet" where
  "scenario_set \<equiv>
     \<lparr> id_' = 3, num_groups_' = 2, spds_' = (), fluds_' = (), angles_' = [5, 7, 9],
       boundaries_' = Map.empty, executed_' = False \<rparr>"

section \<open>Narrowing and widening of indices\<close>

lemma narrow_unat: "unat (ucast (v :: size_t) :: uint32) = unat v mod 2 ^ 32"
  by (simp add: unsigned_ucast_eq take_bit_eq_mod)

lemma uint32_bound: "unat (w :: uint32) < 2 ^ 32"
  using unsigned_less [of w, where ?'a = nat] by simp

lemma widen_unat: "unat (ucast (w :: uint32) :: size_t) = unat w"
proof -
  have "unat w < 2 ^ 64" using uint32_bound [of w] by simp
  then show ?thesis by (simp add: unsigned_ucast_eq take_bit_eq_mod)
qed

lemma widen_narrow:
  "(v :: size_t) < 2 ^ 32 \<Longrightarrow> (ucast (ucast v :: uint32) :: size_t) = v"
proof -
  assume "v < 2 ^ 32"
  then have "unat v < 2 ^ 32" by (simp add: word_less_nat_alt)
  then have "unat (ucast (ucast v :: uint32) :: size_t) = unat v"
    by (simp only: widen_unat narrow_unat mod_less)
  then show ?thesis by (rule unsigned_word_eqI)
qed

lemma narrow_widen: "(ucast (ucast (w :: uint32) :: size_t) :: uint32) = w"
proof -
  have "unat (ucast (ucast w :: size_t) :: uint32) = unat w"
    using uint32_bound [of w] by (simp only: widen_unat narrow_unat mod_less)
  then show ?thesis by (rule unsigned_word_eqI)
qed

lemma narrow_eq_iff:
  "(ucast (v :: size_t) :: uint32) = ucast (v' :: size_t)
    \<longleftrightarrow> unat v mod 2 ^ 32 = unat v' mod 2 ^ 32"
  by (simp only: word_eq_iff_unsigned [where ?'a = nat and ?v = "ucast v :: uint32"] narrow_unat)

lemma small_member_iff:
  assumes "\<forall>x \<in> set L. (x :: size_t) < 2 ^ 32"
  shows "(v :: uint32) \<in> ucast ` set L \<longleftrightarrow> ucast v \<in> set L"
proof
  assume "v \<in> ucast ` set L"
  then obtain x where x: "x \<in> set L" "v = ucast x" by blast
  with assms have "(ucast v :: size_t) = x" by (simp add: widen_narrow)
  with x show "ucast v \<in> set L" by simp
next
  assume "ucast v \<in> set L"
  then have "(ucast (ucast v :: size_t) :: uint32) \<in> ucast ` set L" by (rule imageI)
  then show "v \<in> ucast ` set L" by (simp only: narrow_widen)
qed

lemma small_map_widen:
  "\<forall>x \<in> set L. (x :: size_t) < 2 ^ 32 \<Longrightarrow> map ucast (map ucast L :: uint32 list) = L"
  by (induction L) (simp_all add: widen_narrow)

lemma ctor_angles:
  "AngleSet_ctor ident num_groups spds fluds angle_indices boundaries = Inr a
    \<Longrightarrow> angles_' a = map ucast angle_indices"
  by (auto simp: AngleSet_ctor_def)

lemma ctor_scenario:
  "AngleSet_ctor 3 2 () () [5, 7, 9] Map.empty = Inr scenario_set"
  by (simp add: AngleSet_ctor_def)

section \<open>Steps of the advance protocol\<close>

lemma advance_finished:
  "finished w \<Longrightarrow> AngleSetAdvance w poll permission = (Finished, w)"
  by (simp add: AngleSetAdvance_def)

lemma advance_Finished_recorded:
  "fst (AngleSetAdvance w poll permission) = Finished \<Longrightarrow>
     finished (snd (AngleSetAdvance w poll permission))"
  by (simp add: AngleSetAdvance_def split: if_splits)

lemma calls_finished:
  "finished w \<Longrightarrow> AdvanceCalls w calls = (replicate (length calls) Finished, w)"
proof (induction calls)
  case Nil
  then show ?case by simp
next
  case (Cons call calls)
  obtain poll permission where call: "call = (poll, permission)" by (cases call)
  from Cons show ?case by (simp add: call advance_finished)
qed










lemma first_advance_scenario:
  "AngleSetAdvance (fresh_sweep scenario_set)
      \<lparr> receives_complete = True, sends_complete = False \<rparr> Executed
    = (Executed,
       \<lparr> aset = scenario_set \<lparr> executed_' := True \<rparr>, kernel_calls = 1, sends_enqueued = 1,
         polls = 1, finished = False \<rparr>)"
  by (simp add: AngleSetAdvance_def fresh_sweep_def permits_def)

section \<open>Claims about the advance protocol\<close>




text \<open>
  Claim C2, as amended. An advance call whose permission denies execution never invokes the
  kernel, whatever the poll reports; and when the angle set is not already Finished (its
  status is not recorded as Finished, and the kernel has not run or a send is not yet
  confirmed), all required data are present and the permission denies, the call returns
  ReadyToExecute.
\<close>

theorem advance_denied:
  assumes "\<not> permits permission"
  shows "kernel_calls (snd (AngleSetAdvance w poll permission)) = kernel_calls w
       \<and> (\<not> finished w \<and> \<not> (executed_' (aset w) \<and> sends_complete poll)
            \<and> receives_complete poll \<longrightarrow>
            AngleSetAdvance w poll permission
              = (ReadyToExecute, w \<lparr> polls := polls w + 1 \<rparr>))"
  using assms by (simp add: AngleSetAdvance_def)

text \<open>
  The scenario before the kernel has run: all data are present, the permission denies, and
  the call returns ReadyToExecute with no kernel call.
\<close>

theorem advance_denied_witness:
  "\<not> permits ReadyToExecute
   \<and> AngleSetAdvance (fresh_sweep scenario_set)
        \<lparr> receives_complete = True, sends_complete = False \<rparr> ReadyToExecute
      = (ReadyToExecute,
         \<lparr> aset = scenario_set, kernel_calls = 0, sends_enqueued = 0, polls = 1,
           finished = False \<rparr>)"
proof -
  have d: "\<not> permits ReadyToExecute" by (simp add: permits_def)
  show ?thesis
    using d advance_denied [OF d, of "fresh_sweep scenario_set"
        "\<lparr> receives_complete = True, sends_complete = False \<rparr>"]
    by (simp add: fresh_sweep_def)
qed

text \<open>
  As stated, for every angle set, C2 fails for one that is Finished: the scenario's angle
  set executes at its first advance; at the next call all data are present, the sends are
  confirmed and the permission denies, and the call returns Finished, not ReadyToExecute.
\<close>

theorem advance_denied_counterexample:
  "\<not> permits ReadyToExecute
   \<and> receives_complete \<lparr> receives_complete = True, sends_complete = True \<rparr>
   \<and> fst (AngleSetAdvance
        (snd (AngleSetAdvance (fresh_sweep scenario_set)
          \<lparr> receives_complete = True, sends_complete = False \<rparr> Executed))
        \<lparr> receives_complete = True, sends_complete = True \<rparr> ReadyToExecute) = Finished
   \<and> fst (AngleSetAdvance
        (snd (AngleSetAdvance (fresh_sweep scenario_set)
          \<lparr> receives_complete = True, sends_complete = False \<rparr> Executed))
        \<lparr> receives_complete = True, sends_complete = True \<rparr> ReadyToExecute) \<noteq> ReadyToExecute"
  by (simp add: AngleSetAdvance_def permits_def fresh_sweep_def)

text \<open>
  Claim C3. For an angle set whose status is already Finished, any further advance call
  returns Finished and changes nothing, whatever the poll reports and whatever the
  permission, and so does every sequence of further calls. The status is recorded by the call
  that first returns Finished, so this holds after any call that returned Finished.
\<close>

theorem advance_finished_noop:
  "(finished w \<longrightarrow>
      AngleSetAdvance w poll permission = (Finished, w)
      \<and> AdvanceCalls w calls = (replicate (length calls) Finished, w))
   \<and> (fst (AngleSetAdvance w poll permission) = Finished \<longrightarrow>
        AngleSetAdvance (snd (AngleSetAdvance w poll permission)) poll' permission'
          = (Finished, snd (AngleSetAdvance w poll permission))
        \<and> AdvanceCalls (snd (AngleSetAdvance w poll permission)) calls
          = (replicate (length calls) Finished, snd (AngleSetAdvance w poll permission)))"
proof -
  {
    assume "fst (AngleSetAdvance w poll permission) = Finished"
    then have "finished (snd (AngleSetAdvance w poll permission))"
      by (rule advance_Finished_recorded)
    note advance_finished [OF this, of poll' permission'] calls_finished [OF this, of calls]
  }
  then show ?thesis
    using advance_finished [of w poll permission] calls_finished [of w calls] by blast
qed

text \<open>
  The scenario after the kernel has run: the call at which the sends are confirmed returns
  Finished; a later denied call at which the poll reports nothing complete, and a later
  permitted call, return Finished and leave the state as it was.
\<close>

theorem advance_finished_noop_witness:
  "AngleSetAdvance
       \<lparr> aset = scenario_set \<lparr> executed_' := True \<rparr>, kernel_calls = 1, sends_enqueued = 1,
         polls = 1, finished = False \<rparr>
       \<lparr> receives_complete = True, sends_complete = True \<rparr> Executed
     = (Finished,
        \<lparr> aset = scenario_set \<lparr> executed_' := True \<rparr>, kernel_calls = 1, sends_enqueued = 1,
          polls = 2, finished = True \<rparr>)
   \<and> AdvanceCalls
        \<lparr> aset = scenario_set \<lparr> executed_' := True \<rparr>, kernel_calls = 1, sends_enqueued = 1,
          polls = 2, finished = True \<rparr>
        [(\<lparr> receives_complete = False, sends_complete = False \<rparr>, ReadyToExecute),
         (\<lparr> receives_complete = True, sends_complete = False \<rparr>, Executed)]
     = ([Finished, Finished],
        \<lparr> aset = scenario_set \<lparr> executed_' := True \<rparr>, kernel_calls = 1, sends_enqueued = 1,
          polls = 2, finished = True \<rparr>)"
proof -
  have f: "AngleSetAdvance
       \<lparr> aset = scenario_set \<lparr> executed_' := True \<rparr>, kernel_calls = 1, sends_enqueued = 1,
         polls = 1, finished = False \<rparr>
       \<lparr> receives_complete = True, sends_complete = True \<rparr> Executed
     = (Finished,
        \<lparr> aset = scenario_set \<lparr> executed_' := True \<rparr>, kernel_calls = 1, sends_enqueued = 1,
          polls = 2, finished = True \<rparr>)"
    by (simp add: AngleSetAdvance_def)
  show ?thesis
    using f advance_finished_noop
      [of "\<lparr> aset = scenario_set \<lparr> executed_' := True \<rparr>, kernel_calls = 1,
             sends_enqueued = 1, polls = 1, finished = False \<rparr>"
          "\<lparr> receives_complete = True, sends_complete = True \<rparr>" Executed
          "[(\<lparr> receives_complete = False, sends_complete = False \<rparr>, ReadyToExecute),
            (\<lparr> receives_complete = True, sends_complete = False \<rparr>, Executed)]"]
    by simp
qed



section \<open>Claims about construction and the accessors\<close>

text \<open>
  Claim C5, as amended. For the angle set constructed with the direction index list L,
  \<open>HasAngleIndex v\<close> is true exactly when \<open>v\<close> is the 32-bit narrowing of an element of L;
  when every element of L is below \<open>2 ^ 32\<close>, that is exactly when \<open>v\<close> is an element of L,
  and it is false for every other index. The test returns a truth value and nothing else.
\<close>

theorem HasAngleIndex_narrowed:
  assumes "AngleSet_ctor ident num_groups spds fluds angle_indices boundaries = Inr a"
  shows "(HasAngleIndex a v \<longleftrightarrow> v \<in> ucast ` set angle_indices)
       \<and> ((\<forall>x \<in> set angle_indices. x < 2 ^ 32) \<longrightarrow>
            (HasAngleIndex a v \<longleftrightarrow> ucast v \<in> set angle_indices))"
proof -
  from assms have "angles_' a = map ucast angle_indices"
    by (rule ctor_angles)
  then have m: "HasAngleIndex a v \<longleftrightarrow> v \<in> ucast ` set angle_indices"
    by (simp add: HasAngleIndex_def)
  show ?thesis using m small_member_iff [of angle_indices v] by blast
qed

theorem HasAngleIndex_narrowed_witness:
  "AngleSet_ctor 3 2 () () [5, 7, 9] Map.empty = Inr scenario_set
   \<and> HasAngleIndex scenario_set 7
   \<and> \<not> HasAngleIndex scenario_set 6"
proof -
  have s: "\<forall>x \<in> set [5, 7, 9 :: size_t]. x < 2 ^ 32" by simp
  show ?thesis
    using ctor_scenario HasAngleIndex_narrowed [OF ctor_scenario, of 7]
      HasAngleIndex_narrowed [OF ctor_scenario, of 6] s
    by simp
qed

text \<open>
  As stated, C5 fails for a supplied index of \<open>2 ^ 32\<close> or more: constructed with the single
  index \<open>2 ^ 32 + 5\<close>, the angle set answers true for 5, which is not an element of the
  supplied list.
\<close>

theorem HasAngleIndex_supplied_counterexample:
  "AngleSet_ctor 3 2 () () [4294967301] Map.empty = Inr (scenario_set \<lparr> angles_' := [5] \<rparr>)
   \<and> HasAngleIndex (scenario_set \<lparr> angles_' := [5] \<rparr>) 5
   \<and> (ucast (5 :: uint32) :: size_t) \<notin> set [4294967301]"
  by (simp add: AngleSet_ctor_def HasAngleIndex_def)

text \<open>
  Claim C6. The default \<open>UpdateSweepDependencies\<close> reports no dependencies: the caller's
  set is exactly what it was, and so is the angle set.
\<close>

theorem UpdateSweepDependencies_default:
  "fst (UpdateSweepDependencies a dependent_angle_sets) = a
   \<and> snd (UpdateSweepDependencies a dependent_angle_sets) = dependent_angle_sets"
  by (simp add: UpdateSweepDependencies_def)

text \<open>
  Claim C7. For every angle set that keeps the default \<open>GetCommunicator\<close> (a variant with no
  communicator), every call raises the logic fault "Method not implemented" and none returns a
  communicator.
\<close>

theorem GetCommunicator_default:
  "(GetCommunicator a :: error + 'comm) = Inl (LogicalError ''Method not implemented'')
   \<and> (\<forall>c. (GetCommunicator a :: error + 'comm) \<noteq> Inr c)"
  by (simp add: GetCommunicator_def OpenSnLogicalError_def)

text \<open>
  Claim C8, as amended. Every construction call succeeds with an angle set whose \<open>GetID\<close> is
  the supplied id, whose \<open>GetNumGroups\<close> is the supplied number of groups, whose
  \<open>GetAngleIndices\<close> lists the supplied direction indices in their supplied order, each
  narrowed to 32 bits (so exactly the supplied indices when all of them are below \<open>2 ^ 32\<close>),
  whose \<open>GetNumAngles\<close> is the length of the supplied list, and whose \<open>executed\<close> flag is
  false.
\<close>

theorem ctor_getters:
  "\<exists>a. AngleSet_ctor ident num_groups spds fluds angle_indices boundaries = Inr a
     \<and> GetID a = ident
     \<and> GetNumGroups a = num_groups
     \<and> GetAngleIndices a = map ucast angle_indices
     \<and> ((\<forall>x \<in> set angle_indices. x < 2 ^ 32) \<longrightarrow> map ucast (GetAngleIndices a) = angle_indices)
     \<and> GetNumAngles a = length angle_indices
     \<and> \<not> executed_' a"
proof -
  let ?a = "\<lparr> id_' = ident, num_groups_' = num_groups, spds_' = spds, fluds_' = fluds,
             angles_' = map ucast angle_indices, boundaries_' = boundaries,
             executed_' = False \<rparr>"
  have "AngleSet_ctor ident num_groups spds fluds angle_indices boundaries = Inr ?a"
    by (simp add: AngleSet_ctor_def)
  moreover have "GetID ?a = ident" and "GetNumGroups ?a = num_groups"
    and "GetAngleIndices ?a = map ucast angle_indices"
    and "GetNumAngles ?a = length angle_indices" and "\<not> executed_' ?a"
    by (simp_all add: GetID_def GetNumGroups_def GetAngleIndices_def GetNumAngles_def)
  moreover have "(\<forall>x \<in> set angle_indices. x < 2 ^ 32) \<longrightarrow>
      map ucast (GetAngleIndices ?a) = angle_indices"
    using small_map_widen [of angle_indices] by (simp add: GetAngleIndices_def)
  ultimately show ?thesis by blast
qed

theorem ctor_getters_witness:
  "\<exists>a. AngleSet_ctor 3 2 () () [5, 7, 9] (Map.empty :: uint64 \<rightharpoonup> unit) = Inr a
     \<and> GetID a = 3 \<and> GetNumGroups a = 2 \<and> GetAngleIndices a = [5, 7, 9]
     \<and> map ucast (GetAngleIndices a) = [5, 7, 9 :: size_t]
     \<and> GetNumAngles a = 3 \<and> \<not> executed_' a"
  using ctor_getters [of 3 2 "()" "()" "[5, 7, 9]" "Map.empty :: uint64 \<rightharpoonup> unit"]
  by (simp add: numeral_3_eq_3)

text \<open>
  As stated, C8 fails for a supplied index of \<open>2 ^ 32\<close> or more: constructed with the single
  index \<open>2 ^ 32 + 5\<close>, \<open>GetAngleIndices\<close> lists 5, which is not the supplied index.
\<close>

theorem GetAngleIndices_supplied_counterexample:
  "AngleSet_ctor 3 2 () () [4294967301] Map.empty = Inr (scenario_set \<lparr> angles_' := [5] \<rparr>)
   \<and> GetAngleIndices (scenario_set \<lparr> angles_' := [5] \<rparr>) = [5]
   \<and> map ucast (GetAngleIndices (scenario_set \<lparr> angles_' := [5] \<rparr>)) \<noteq> [4294967301 :: size_t]"
  by (simp add: AngleSet_ctor_def GetAngleIndices_def)

text \<open>
  Claim C9. The constructor stores every supplied index narrowed to 32 bits, that is modulo
  \<open>2 ^ 32\<close>. Two supplied indices that agree modulo \<open>2 ^ 32\<close> cannot be told apart: put at
  the same place of the list they give one and the same angle set, so the membership test,
  which takes a 32-bit index and reads only the angle set, answers alike for both.
\<close>

theorem ctor_narrows_indices:
  assumes "unat v mod 2 ^ 32 = unat v' mod 2 ^ 32"
    and "AngleSet_ctor ident num_groups spds fluds (pre @ v # post) boundaries = Inr a"
    and "AngleSet_ctor ident num_groups spds fluds (pre @ v' # post) boundaries = Inr a'"
  shows "map unat (GetAngleIndices a) = map (\<lambda>x. unat x mod 2 ^ 32) (pre @ v # post)
       \<and> a = a'
       \<and> HasAngleIndex a w = HasAngleIndex a' w"
proof -
  from assms(1) have e: "(ucast v :: uint32) = ucast v'" by (simp only: narrow_eq_iff)
  have "map unat (GetAngleIndices a) = map (\<lambda>x. unat x mod 2 ^ 32) (pre @ v # post)"
    using ctor_angles [OF assms(2)] by (simp add: GetAngleIndices_def narrow_unat)
  moreover have "a = a'"
    using assms(2,3) e by (simp add: AngleSet_ctor_def)
  ultimately show ?thesis by simp
qed

text \<open>The indices 5 and \<open>2 ^ 32 + 5\<close> are distinct and give the same angle set.\<close>

theorem ctor_narrows_indices_witness:
  "(5 :: size_t) \<noteq> 4294967301
   \<and> AngleSet_ctor 3 2 () () [5, 7] (Map.empty :: uint64 \<rightharpoonup> unit)
     = AngleSet_ctor 3 2 () () [4294967301, 7] Map.empty
   \<and> AngleSet_ctor 3 2 () () [4294967301, 7] Map.empty
     = Inr (scenario_set \<lparr> angles_' := [5, 7] \<rparr>)
   \<and> map unat (GetAngleIndices (scenario_set \<lparr> angles_' := [5, 7] \<rparr>)) = [5, 7]"
proof -
  let ?a = "scenario_set \<lparr> angles_' := [5, 7] \<rparr>"
  have m: "unat (4294967301 :: size_t) mod 2 ^ 32 = unat (5 :: size_t) mod 2 ^ 32" by simp
  have c1: "AngleSet_ctor 3 2 () () ([] @ 4294967301 # [7]) (Map.empty :: uint64 \<rightharpoonup> unit) = Inr ?a"
    by (simp add: AngleSet_ctor_def)
  have c2: "AngleSet_ctor 3 2 () () ([] @ 5 # [7]) (Map.empty :: uint64 \<rightharpoonup> unit) = Inr ?a"
    by (simp add: AngleSet_ctor_def)
  show ?thesis
    using ctor_narrows_indices [OF m c1 c2, of 5] c1 c2 by simp
qed

text \<open>
  Claim C10. The constructor never signals a fault: for every input it returns an angle set,
  with the number of groups and the indices as supplied and as many angles as indices were
  supplied. It does so for zero groups and an empty index list, and a duplicated index is
  stored twice.
\<close>

theorem ctor_never_faults:
  "(\<exists>a. AngleSet_ctor ident num_groups spds fluds angle_indices boundaries = Inr a
        \<and> GetNumGroups a = num_groups
        \<and> GetAngleIndices a = map ucast angle_indices
        \<and> GetNumAngles a = length angle_indices)
   \<and> (\<exists>a. AngleSet_ctor ident 0 spds fluds [] boundaries = Inr a
        \<and> GetNumGroups a = 0 \<and> GetNumAngles a = 0)
   \<and> (\<exists>a. AngleSet_ctor ident num_groups spds fluds [v, v] boundaries = Inr a
        \<and> GetAngleIndices a = [ucast v, ucast v] \<and> GetNumAngles a = 2)"
  by (simp add: AngleSet_ctor_def GetNumGroups_def GetAngleIndices_def GetNumAngles_def)

end
